theory Spec2Isabelle
  imports Main "HOL-Library.Word"
begin

section \<open>Errors\<close>

text \<open>
  Go error values. \<open>nil\<close> is \<open>None\<close> of \<open>error option\<close>. An error built by
  \<open>errors.Errorf\<close> keeps its format string and its arguments, an error built by
  \<open>errors.Wrap\<close> or \<open>errors.Wrapf\<close> keeps its cause. \<open>External\<close> is an error
  handed over by a collaborator whose code is not part of the files modelled here
  (blob storage, content index, repository open and close, the maintenance run);
  \<open>NotOwnedError\<close> is \<open>maintenance.NotOwnedError\<close>.
\<close>

datatype fmtarg = Str string | I32 "32 word"

datatype error =
    External string
  | NotOwnedError string
  | Errorf string "fmtarg list"
  | Wrap error string
  | Wrapf error string "fmtarg list"

text \<open>\<open>errors.Wrap(err, msg)\<close> returns \<open>nil\<close> when \<open>err\<close> is \<open>nil\<close>.\<close>

definition errors_Wrap :: "error option \<Rightarrow> string \<Rightarrow> error option" where
  "errors_Wrap err msg = (case err of None \<Rightarrow> None | Some e \<Rightarrow> Some (Wrap e msg))"

text \<open>
  \<open>errors.As(err, &noe)\<close> with \<open>noe\<close> of type \<open>maintenance.NotOwnedError\<close>: true
  when a \<open>NotOwnedError\<close> stands in the chain of causes of \<open>err\<close>, false on \<open>nil\<close>.
\<close>

fun isNotOwned :: "error \<Rightarrow> bool" where
  "isNotOwned (NotOwnedError _) = True"
| "isNotOwned (Wrap e _) = isNotOwned e"
| "isNotOwned (Wrapf e _ _) = isNotOwned e"
| "isNotOwned (External _) = False"
| "isNotOwned (Errorf _ _) = False"

definition errors_As_NotOwned :: "error option \<Rightarrow> bool" where
  "errors_As_NotOwned err = (case err of None \<Rightarrow> False | Some e \<Rightarrow> isNotOwned e)"

text \<open>
  What a Go function call of type \<open>error\<close> can do: return (an error or \<open>nil\<close>), or
  panic.
\<close>

datatype result = Done "error option" | Panicked

section \<open>Calls on collaborators and error log lines\<close>

text \<open>
  The trace of a run: the calls that \<open>run\<close>, \<open>maybeRunMaintenance\<close> and the guarded
  action make on their collaborators, and the lines they log with \<open>Errorf\<close>, in the
  order they happen. Not recorded: the \<open>GetContent\<close> call inside \<open>contentVerify\<close>
  (the check is a function of the reader), the lines logged with \<open>Infof\<close> (progress
  reports, which influence nothing), memory tracking and the metrics listener.

  Modelled from the spec: the range of content ids (\<open>c.contentRange.contentIDRange()\<close>,
  declared elsewhere) is an optional pair of a low and a high id; it is only passed on
  to \<open>IterateContents\<close>.
\<close>

record IterateOptions =
  Range :: "(string \<times> string) option"
  Parallel :: int
  IncludeDeleted :: bool

datatype event =
    CallListBlobs string
  | CallIterateContents IterateOptions
  | CallInitPrometheus
  | CallOpenRepository bool
  | CallAct
  | CallMaybeRunMaintenance
  | CallDirectWriteSession string
  | CallClose
  | LogErrorf string error
  | OsExit nat

section \<open>Data model\<close>

text \<open>
  \<open>blob.Metadata\<close>: \<open>Length\<close> is compared with an \<open>int64\<close> in \<open>contentVerify\<close>,
  so it is a 64-bit word read as signed.
\<close>

record Metadata =
  BlobID :: string
  Length :: "64 word"

text \<open>
  \<open>content.Info\<close>, as far as \<open>contentVerify\<close> reads it. The declaration of
  \<open>GetPackOffset\<close> and \<open>GetPackedLength\<close> is not in the files modelled; both are
  unsigned integers of one type, since Go adds them without a conversion. The type
  \<open>'u\<close> is that integer type: the functions below take it to be \<open>'w word\<close> for an
  arbitrary width \<open>'w\<close>, and kopia's index entries use 32 bits.
\<close>

record 'u Info =
  ContentID :: string
  PackBlobID :: string
  PackOffset :: 'u
  PackedLength :: 'u

text \<open>
  \<open>blob.Reader\<close>: \<open>ListBlobs\<close> with a prefix hands blobs to its callback one by one
  and returns an error or \<open>nil\<close>. The callback of \<open>readBlobMap\<close> never fails, so the
  call is determined by the blobs delivered and the error returned at the end.
\<close>

record BlobReader =
  ListBlobs :: "string \<Rightarrow> Metadata list \<times> error option"

text \<open>
  \<open>content.Reader\<close>. \<open>IterateContents\<close> runs the callback on worker goroutines.
  Its outcome is: for every worker the records it passed to the callback, in order
  (\<open>delivered\<close>); the order in which the workers take their atomic steps
  (\<open>schedule\<close>, a list of worker indices); and the error returned at the end
  (\<open>failure\<close>). \<open>GetContent\<close> returns the bytes of a content or an error.
\<close>

record 'u iteration =
  delivered :: "'u Info list list"
  schedule :: "nat list"
  failure :: "error option"

record 'u ContentReader =
  IterateContents :: "IterateOptions \<Rightarrow> 'u iteration"
  GetContent :: "string \<Rightarrow> error + 8 word list"

text \<open>
  \<open>repo.DirectRepository\<close>. \<open>DirectWriteSession\<close> is the error returned by
  \<open>repo.DirectWriteSession\<close> on this repository for a session of the given purpose;
  the only session opened in the files modelled runs \<open>snapshotmaintenance.Run\<close> in
  automatic mode, not forced, with full safety.
\<close>

record 'u DirectRepository =
  BlobReader :: BlobReader
  ContentReader :: "'u ContentReader"
  DirectWriteSession :: "string \<Rightarrow> error option"

text \<open>
  \<open>repo.Repository\<close>: \<open>ReadOnly\<close> is \<open>rep.ClientOptions().ReadOnly\<close>, \<open>direct\<close> is
  the outcome of the type assertion \<open>rep.(repo.DirectRepository)\<close>, \<open>Close\<close> the
  error returned by \<open>rep.Close\<close>.
\<close>

record 'u Repository =
  ReadOnly :: bool
  direct :: "'u DirectRepository option"
  Close :: "error option"

record commandContentVerify =
  contentVerifyParallel :: int
  contentVerifyFull :: bool
  contentVerifyIncludeDeleted :: bool
  contentRange :: "(string \<times> string) option"

text \<open>
  \<open>App\<close>, with the two collaborators \<open>maybeRepositoryAction\<close> calls:
  \<open>openRepository\<close> (given \<open>required\<close>, a repository or \<open>nil\<close>, and an error or
  \<open>nil\<close>) and \<open>initPrometheus\<close>.
\<close>

record 'u App =
  enableAutomaticMaintenance :: bool
  metricsListenAddr :: string
  openRepository :: "bool \<Rightarrow> 'u Repository option \<times> error option"
  initPrometheus :: "error option"

record repositoryAccessMode =
  mustBeConnected :: bool
  disableMaintenance :: bool

section \<open>Content verification\<close>

text \<open>
  \<open>readBlobMap\<close>: every blob listed is stored under its id, a later blob replacing an
  earlier one of the same id; a listing error is wrapped and no map is returned.
\<close>

definition readBlobMap :: "BlobReader \<Rightarrow> error + (string \<rightharpoonup> Metadata)" where
  "readBlobMap br =
     (case ListBlobs br [] of
        (bms, Some err) \<Rightarrow> Inl (Wrap err ''unable to list blobs'')
      | (bms, None) \<Rightarrow> Inr (fold (\<lambda>bm blobMap. blobMap(BlobID bm \<mapsto> bm)) bms Map.empty))"

text \<open>
  \<open>contentVerify\<close>. In bounds mode the sum is computed in the unsigned type of the
  two fields, so it wraps at \<open>2 ^ LENGTH('w)\<close>, and is then converted to \<open>int64\<close>
  (zero-extended to 64 bits and read as signed).
\<close>

definition contentVerify ::
  "commandContentVerify \<Rightarrow> ('w::len) word ContentReader \<Rightarrow> 'w word Info \<Rightarrow>
     (string \<rightharpoonup> Metadata) \<Rightarrow> error option" where
  "contentVerify c r ci blobMap =
     (if contentVerifyFull c then
        (case GetContent r (ContentID ci) of
           Inl err \<Rightarrow> Some (Wrapf err ''content %v is invalid'' [Str (ContentID ci)])
         | Inr bytes \<Rightarrow> None)
      else
        (case blobMap (PackBlobID ci) of
           None \<Rightarrow>
             Some (Errorf ''content %v depends on missing blob %v''
                     [Str (ContentID ci), Str (PackBlobID ci)])
         | Some bi \<Rightarrow>
             if sint (Length bi) < sint (ucast (PackOffset ci + PackedLength ci) :: 64 word)
             then Some (Errorf ''content %v out of bounds of its pack blob %v''
                          [Str (ContentID ci), Str (PackBlobID ci)])
             else None))"

text \<open>
  The state of \<open>run\<close>: the blob map, the three \<open>int32\<close> counters, and the trace.
\<close>

record verify_state =
  blobMap :: "string \<rightharpoonup> Metadata"
  totalCount :: "32 word"
  successCount :: "32 word"
  errorCount :: "32 word"
  trace :: "event list"

text \<open>
  The callback \<open>run\<close> hands to \<open>IterateContents\<close>, as the atomic steps one call of
  it takes on the shared state: a failed check logs the error and adds one to
  \<open>errorCount\<close>, a passed check adds one to \<open>successCount\<close>; then one is added to
  \<open>totalCount\<close>. The check itself only reads.
\<close>

datatype step = LogFailure error | AddError | AddSuccess | AddTotal

definition callback ::
  "commandContentVerify \<Rightarrow> ('w::len) word ContentReader \<Rightarrow> (string \<rightharpoonup> Metadata) \<Rightarrow>
     'w word Info \<Rightarrow> step list" where
  "callback c r bm ci =
     (case contentVerify c r ci bm of
        Some err \<Rightarrow> [LogFailure err, AddError]
      | None \<Rightarrow> [AddSuccess]) @ [AddTotal]"

fun exec :: "step \<Rightarrow> verify_state \<Rightarrow> verify_state" where
  "exec (LogFailure err) s = s\<lparr>trace := trace s @ [LogErrorf ''error %v'' err]\<rparr>"
| "exec AddError s = s\<lparr>errorCount := errorCount s + 1\<rparr>"
| "exec AddSuccess s = s\<lparr>successCount := successCount s + 1\<rparr>"
| "exec AddTotal s = s\<lparr>totalCount := totalCount s + 1\<rparr>"

text \<open>
  The workers' steps interleaved: \<open>pending\<close> holds the steps each worker still has
  to take; the next worker named by the schedule takes its next step (a worker that
  has none, or a number that names no worker, takes none). \<open>IterateContents\<close> returns
  when every callback has returned, so when the schedule ends the workers finish
  their remaining steps.
\<close>

fun runWorkers :: "nat list \<Rightarrow> step list list \<Rightarrow> verify_state \<Rightarrow> verify_state" where
  "runWorkers [] pending s = fold exec (concat pending) s"
| "runWorkers (i # sched) pending s =
     (if i < length pending then
        (case pending ! i of
           [] \<Rightarrow> runWorkers sched pending s
         | st # rest \<Rightarrow> runWorkers sched (pending[i := rest]) (exec st s))
      else runWorkers sched pending s)"

definition iterateOptions :: "commandContentVerify \<Rightarrow> IterateOptions" where
  "iterateOptions c =
     \<lparr>Range = contentRange c,
      Parallel = contentVerifyParallel c,
      IncludeDeleted = contentVerifyIncludeDeleted c\<rparr>"

text \<open>The part of \<open>run\<close> after the blob map is set: the iteration and the report.\<close>

definition verifyContents ::
  "commandContentVerify \<Rightarrow> ('w::len) word DirectRepository \<Rightarrow> verify_state \<Rightarrow>
     result \<times> verify_state" where
  "verifyContents c rep s =
     (let it = IterateContents (ContentReader rep) (iterateOptions c);
          s1 = s\<lparr>trace := trace s @ [CallIterateContents (iterateOptions c)]\<rparr>;
          s2 = runWorkers (schedule it)
                 (map (\<lambda>cis. concat (map (callback c (ContentReader rep) (blobMap s)) cis))
                    (delivered it)) s1
      in case failure it of
           Some err \<Rightarrow> (Done (Some (Wrap err ''iterate contents'')), s2)
         | None \<Rightarrow>
             if errorCount s2 = 0 then (Done None, s2)
             else (Done (Some (Errorf ''encountered %v errors'' [I32 (errorCount s2)])), s2))"

definition initial_state :: verify_state where
  "initial_state =
     \<lparr>blobMap = Map.empty, totalCount = 0, successCount = 0, errorCount = 0, trace = []\<rparr>"

text \<open>
  \<open>run\<close>. The repository is a Go interface value and can be \<open>nil\<close>
  (\<open>assertDirectRepository\<close> passes \<open>nil\<close> on): then \<open>rep.BlobReader()\<close>, or in full
  mode \<open>rep.ContentReader()\<close>, panics.
\<close>

definition run ::
  "commandContentVerify \<Rightarrow> ('w::len) word DirectRepository option \<Rightarrow> result \<times> verify_state" where
  "run c rep =
     (case rep of
        None \<Rightarrow> (Panicked, initial_state)
      | Some rep \<Rightarrow>
          if \<not> contentVerifyFull c then
            (case readBlobMap (BlobReader rep) of
               Inl err \<Rightarrow> (Done (Some err), initial_state\<lparr>trace := [CallListBlobs []]\<rparr>)
             | Inr m \<Rightarrow>
                 verifyContents c rep (initial_state\<lparr>blobMap := m, trace := [CallListBlobs []]\<rparr>))
          else verifyContents c rep initial_state)"

section \<open>The guarded repository action\<close>

text \<open>
  \<open>maybeRunMaintenance\<close>, with the error it returns and the calls it makes.
\<close>

definition maybeRunMaintenance ::
  "'u App \<Rightarrow> 'u Repository \<Rightarrow> error option \<times> event list" where
  "maybeRunMaintenance c rep =
     (if \<not> enableAutomaticMaintenance c then (None, [])
      else if ReadOnly rep then (None, [])
      else
        (case direct rep of
           None \<Rightarrow> (None, [])
         | Some dr \<Rightarrow>
             (let err = DirectWriteSession dr ''maybeRunMaintenance''
              in (if errors_As_NotOwned err then None
                  else errors_Wrap err ''error running maintenance'',
                  [CallDirectWriteSession ''maybeRunMaintenance'']))))"

text \<open>
  The closure \<open>maybeRepositoryAction\<close> passes to \<open>withProfiling\<close>. The action
  \<open>act\<close> is given the repository (or \<open>nil\<close>) and yields its result and the trace of
  what it did. A panic of the action leaves the closure at once.
\<close>

definition repositoryActionBody ::
  "'u App \<Rightarrow> ('u Repository option \<Rightarrow> result \<times> event list) \<Rightarrow> repositoryAccessMode \<Rightarrow>
     result \<times> event list" where
  "repositoryActionBody c act mode =
     (let t0 = (if metricsListenAddr c \<noteq> [] then [CallInitPrometheus] else [])
      in if metricsListenAddr c \<noteq> [] \<and> initPrometheus c \<noteq> None
         then (Done (errors_Wrap (initPrometheus c) ''unable to initialize prometheus.''), t0)
         else
           (let (rep, err) = openRepository c (mustBeConnected mode);
                t1 = t0 @ [CallOpenRepository (mustBeConnected mode)]
            in if err \<noteq> None \<and> mustBeConnected mode
               then (Done (errors_Wrap err ''open repository''), t1)
               else
                 (case act rep of
                    (Panicked, ta) \<Rightarrow> (Panicked, t1 @ [CallAct] @ ta)
                  | (Done aerr, ta) \<Rightarrow>
                      (let t2 = t1 @ [CallAct] @ ta;
                           t3 = (case rep of
                                   Some r \<Rightarrow>
                                     if \<not> disableMaintenance mode then
                                       (case maybeRunMaintenance c r of
                                          (Some merr, tm) \<Rightarrow>
                                            t2 @ [CallMaybeRunMaintenance] @ tm @
                                              [LogErrorf ''error running maintenance: %v'' merr]
                                        | (None, tm) \<Rightarrow> t2 @ [CallMaybeRunMaintenance] @ tm)
                                     else t2
                                 | None \<Rightarrow> t2)
                       in case rep of
                            Some r \<Rightarrow>
                              if mustBeConnected mode then
                                (case Close r of
                                   Some cerr \<Rightarrow>
                                     (Done (Some (Wrap cerr ''unable to close repository'')),
                                      t3 @ [CallClose])
                                 | None \<Rightarrow> (Done aerr, t3 @ [CallClose]))
                              else (Done aerr, t3)
                          | None \<Rightarrow> (Done aerr, t3)))))"

text \<open>
  Modelled from the spec: \<open>withProfiling\<close> is not in the files modelled; it is the
  "scoped observability region" of the guarded action, which runs the closure and
  hands its result on.
\<close>

definition withProfiling :: "result \<times> event list \<Rightarrow> result \<times> event list" where
  "withProfiling body = body"

text \<open>
  How the function \<open>maybeRepositoryAction\<close> returns ends: it returns \<open>nil\<close>, or
  the process exits with a status, or a panic ends it.
\<close>

datatype outcome = Returned | Exited nat | Crashed

definition maybeRepositoryAction ::
  "'u App \<Rightarrow> ('u Repository option \<Rightarrow> result \<times> event list) \<Rightarrow> repositoryAccessMode \<Rightarrow>
     outcome \<times> event list" where
  "maybeRepositoryAction c act mode =
     (case withProfiling (repositoryActionBody c act mode) of
        (Done (Some err), t) \<Rightarrow> (Exited 1, t @ [LogErrorf ''ERROR: %v'' err, OsExit 1])
      | (Done None, t) \<Rightarrow> (Returned, t)
      | (Panicked, t) \<Rightarrow> (Crashed, t))"

definition assertDirectRepository ::
  "('u DirectRepository option \<Rightarrow> result \<times> event list) \<Rightarrow>
     'u Repository option \<Rightarrow> result \<times> event list" where
  "assertDirectRepository act rep =
     (case rep of
        None \<Rightarrow> act None
      | Some r \<Rightarrow>
          (case direct r of
             None \<Rightarrow> (Done (Some (Errorf ''operation supported only on direct repository'' [])), [])
           | Some lr \<Rightarrow> act (Some lr)))"

definition directRepositoryReadActionMode :: repositoryAccessMode where
  "directRepositoryReadActionMode = \<lparr>mustBeConnected = True, disableMaintenance = True\<rparr>"

definition directRepositoryReadAction ::
  "'u App \<Rightarrow> ('u DirectRepository option \<Rightarrow> result \<times> event list) \<Rightarrow> outcome \<times> event list" where
  "directRepositoryReadAction c act =
     maybeRepositoryAction c (assertDirectRepository (\<lambda>rep. act rep))
       directRepositoryReadActionMode"

text \<open>
  \<open>commandContentVerify.setup\<close> registers \<open>svc.directRepositoryReadAction(c.run)\<close> as
  the action of the command; this is what running the command does, for the flag
  values held in \<open>c\<close>.
\<close>

definition commandContentVerify_setup ::
  "('w::len) word App \<Rightarrow> commandContentVerify \<Rightarrow> outcome \<times> event list" where
  "commandContentVerify_setup svc c =
     directRepositoryReadAction svc (\<lambda>rep. (fst (run c rep), trace (snd (run c rep))))"

section \<open>A repository to run the model on\<close>

text \<open>
  One blob \<open>B1\<close> of 1000 bytes; three contents: \<open>C1\<close> at offset 0 and \<open>C2\<close> at
  offset 600 of \<open>B1\<close>, 500 bytes each, and \<open>C3\<close> in a blob \<open>B2\<close> that is not
  listed. Two workers visit them; fetching \<open>C1\<close> fails; a maintenance session
  fails; closing succeeds.
\<close>

definition scenario_C1 :: "32 word Info" where
  "scenario_C1 = \<lparr>ContentID = ''C1'', PackBlobID = ''B1'', PackOffset = 0, PackedLength = 500\<rparr>"

definition scenario_C2 :: "32 word Info" where
  "scenario_C2 = \<lparr>ContentID = ''C2'', PackBlobID = ''B1'', PackOffset = 600, PackedLength = 500\<rparr>"

definition scenario_C3 :: "32 word Info" where
  "scenario_C3 = \<lparr>ContentID = ''C3'', PackBlobID = ''B2'', PackOffset = 0, PackedLength = 10\<rparr>"

definition scenario_blobs :: BlobReader where
  "scenario_blobs = \<lparr>ListBlobs = (\<lambda>prefix. ([\<lparr>BlobID = ''B1'', Length = 1000\<rparr>], None))\<rparr>"

definition scenario_contents :: "32 word ContentReader" where
  "scenario_contents =
     \<lparr>IterateContents = (\<lambda>opts.
        \<lparr>delivered = [[scenario_C1, scenario_C3], [scenario_C2]],
         schedule = [1, 0, 0, 1, 0, 1],
         failure = None\<rparr>),
      GetContent = (\<lambda>cid. if cid = ''C1'' then Inl (External ''unreadable'') else Inr [])\<rparr>"

definition scenario_rep :: "32 word DirectRepository" where
  "scenario_rep =
     \<lparr>BlobReader = scenario_blobs,
      ContentReader = scenario_contents,
      DirectWriteSession = (\<lambda>purpose. Some (External ''maintenance failed''))\<rparr>"

definition scenario_cmd :: commandContentVerify where
  "scenario_cmd =
     \<lparr>contentVerifyParallel = 16, contentVerifyFull = False,
      contentVerifyIncludeDeleted = False, contentRange = None\<rparr>"

definition scenario_repository :: "32 word Repository" where
  "scenario_repository = \<lparr>ReadOnly = False, direct = Some scenario_rep, Close = None\<rparr>"

definition scenario_app :: "32 word App" where
  "scenario_app =
     \<lparr>enableAutomaticMaintenance = True,
      metricsListenAddr = [],
      openRepository = (\<lambda>required. (Some scenario_repository, None)),
      initPrometheus = None\<rparr>"

text \<open>
  Variations: an action that fails, a blob store whose listing fails, a content whose
  offset and length add up to \<open>2 ^ 32\<close>, and an access mode that leaves automatic
  maintenance on.
\<close>

definition failing_act :: "32 word Repository option \<Rightarrow> result \<times> event list" where
  "failing_act rep = (Done (Some (External ''action failed'')), [])"

definition failing_blobs :: BlobReader where
  "failing_blobs =
     \<lparr>ListBlobs = (\<lambda>prefix.
        ([\<lparr>BlobID = ''B1'', Length = 1000\<rparr>], Some (External ''listing failed'')))\<rparr>"

definition wrapping_C4 :: "32 word Info" where
  "wrapping_C4 =
     \<lparr>ContentID = ''C4'', PackBlobID = ''B1'', PackOffset = 0xFFFFFFFF, PackedLength = 1\<rparr>"

definition maintained_mode :: repositoryAccessMode where
  "maintained_mode = \<lparr>mustBeConnected = True, disableMaintenance = False\<rparr>"

section \<open>The counters under any schedule\<close>

lemma exec_blobMap: "blobMap (exec st s) = blobMap s"
  by (cases st) simp_all

lemma exec_counters:
  "errorCount (exec st s) = errorCount s + (if st = AddError then 1 else 0)"
  "successCount (exec st s) = successCount s + (if st = AddSuccess then 1 else 0)"
  "totalCount (exec st s) = totalCount s + (if st = AddTotal then 1 else 0)"
  by (cases st; simp)+

lemma fold_exec_blobMap: "blobMap (fold exec sts s) = blobMap s"
  by (induction sts arbitrary: s) (simp_all add: exec_blobMap)

lemma fold_exec_counters:
  "errorCount (fold exec sts s) = errorCount s + of_nat (count_list sts AddError)"
  "successCount (fold exec sts s) = successCount s + of_nat (count_list sts AddSuccess)"
  "totalCount (fold exec sts s) = totalCount s + of_nat (count_list sts AddTotal)"
  by (induction sts arbitrary: s; simp add: exec_counters)+

lemma exec_trace_ex:
  "\<exists>t. trace (exec st s) = trace s @ t \<and> set t \<subseteq> range (LogErrorf ''error %v'')"
  by (cases st) simp_all

lemma fold_exec_trace:
  "\<exists>t. trace (fold exec sts s) = trace s @ t \<and> set t \<subseteq> range (LogErrorf ''error %v'')"
proof (induction sts arbitrary: s)
  case Nil
  then show ?case by simp
next
  case (Cons st sts)
  obtain t1 where t1: "trace (exec st s) = trace s @ t1" "set t1 \<subseteq> range (LogErrorf ''error %v'')"
    using exec_trace_ex by blast
  obtain t2 where t2: "trace (fold exec sts (exec st s)) = trace (exec st s) @ t2"
    "set t2 \<subseteq> range (LogErrorf ''error %v'')"
    using Cons.IH by blast
  from t1 t2 have "trace (fold exec (st # sts) s) = trace s @ (t1 @ t2) \<and>
      set (t1 @ t2) \<subseteq> range (LogErrorf ''error %v'')"
    by simp
  then show ?case by blast
qed

lemma count_list_concat_update:
  "i < length xss \<Longrightarrow> xss ! i = x # xs \<Longrightarrow>
     count_list (concat xss) y = (if x = y then 1 else 0) + count_list (concat (xss[i := xs])) y"
proof (induction xss arbitrary: i)
  case Nil
  then show ?case by simp
next
  case (Cons a xss)
  then show ?case by (cases i) auto
qed

lemma runWorkers_blobMap: "blobMap (runWorkers sched pending s) = blobMap s"
  by (induction sched pending s rule: runWorkers.induct)
    (auto simp: fold_exec_blobMap exec_blobMap split: list.splits)

lemma runWorkers_counters:
  "errorCount (runWorkers sched pending s) =
     errorCount s + of_nat (count_list (concat pending) AddError) \<and>
   successCount (runWorkers sched pending s) =
     successCount s + of_nat (count_list (concat pending) AddSuccess) \<and>
   totalCount (runWorkers sched pending s) =
     totalCount s + of_nat (count_list (concat pending) AddTotal)"
proof (induction sched pending s rule: runWorkers.induct)
  case (1 pending s)
  then show ?case by (simp add: fold_exec_counters)
next
  case (2 i sched pending s)
  show ?case
  proof (cases "i < length pending")
    case False
    with 2 show ?thesis by simp
  next
    case True
    show ?thesis
    proof (cases "pending ! i")
      case Nil
      with True 2 show ?thesis by simp
    next
      case (Cons st rest)
      with True 2 show ?thesis
        by (simp add: exec_counters count_list_concat_update [OF True Cons])
    qed
  qed
qed

lemma runWorkers_trace:
  "\<exists>t. trace (runWorkers sched pending s) = trace s @ t \<and>
     set t \<subseteq> range (LogErrorf ''error %v'')"
proof (induction sched pending s rule: runWorkers.induct)
  case (1 pending s)
  then show ?case by (simp add: fold_exec_trace)
next
  case (2 i sched pending s)
  show ?case
  proof (cases "i < length pending")
    case False
    with 2 show ?thesis by simp
  next
    case True
    show ?thesis
    proof (cases "pending ! i")
      case Nil
      with True 2 show ?thesis by simp
    next
      case (Cons st rest)
      obtain t1 where t1: "trace (exec st s) = trace s @ t1"
        "set t1 \<subseteq> range (LogErrorf ''error %v'')"
        using exec_trace_ex by blast
      obtain t2 where t2:
        "trace (runWorkers sched (pending[i := rest]) (exec st s)) = trace (exec st s) @ t2"
        "set t2 \<subseteq> range (LogErrorf ''error %v'')"
        using 2(2) [OF True Cons] by blast
      from t1 t2 True Cons
      have "trace (runWorkers (i # sched) pending s) = trace s @ (t1 @ t2) \<and>
          set (t1 @ t2) \<subseteq> range (LogErrorf ''error %v'')"
        by simp
      then show ?thesis by blast
    qed
  qed
qed

lemma callback_counts:
  "count_list (callback c r bm ci) AddTotal = 1"
  "count_list (callback c r bm ci) AddError = (if contentVerify c r ci bm = None then 0 else 1)"
  "count_list (callback c r bm ci) AddSuccess = (if contentVerify c r ci bm = None then 1 else 0)"
  by (simp_all add: callback_def split: option.splits)

lemma count_list_append': "count_list (xs @ ys) y = count_list xs y + count_list ys y"
  by (induction xs) simp_all

lemma count_callbacks:
  "count_list (concat (map (callback c r bm) cis)) AddTotal = length cis"
  "count_list (concat (map (callback c r bm) cis)) AddError =
     length (filter (\<lambda>ci. contentVerify c r ci bm \<noteq> None) cis)"
  "count_list (concat (map (callback c r bm) cis)) AddSuccess =
     length (filter (\<lambda>ci. contentVerify c r ci bm = None) cis)"
  by (induction cis; simp add: count_list_append' callback_counts)+

lemma concat_workers:
  "concat (map (\<lambda>cis. concat (map f cis)) css) = concat (map f (concat css))"
  by (induction css) simp_all

lemma verifyContents_counters:
  assumes "verifyContents c rep s0 = (res, s)"
  shows "blobMap s = blobMap s0"
    and "totalCount s = totalCount s0 +
           of_nat (length (concat (delivered (IterateContents (ContentReader rep) (iterateOptions c)))))"
    and "errorCount s = errorCount s0 +
           of_nat (length (filter (\<lambda>ci. contentVerify c (ContentReader rep) ci (blobMap s0) \<noteq> None)
             (concat (delivered (IterateContents (ContentReader rep) (iterateOptions c))))))"
    and "successCount s = successCount s0 +
           of_nat (length (filter (\<lambda>ci. contentVerify c (ContentReader rep) ci (blobMap s0) = None)
             (concat (delivered (IterateContents (ContentReader rep) (iterateOptions c))))))"
proof -
  let ?it = "IterateContents (ContentReader rep) (iterateOptions c)"
  let ?s1 = "s0\<lparr>trace := trace s0 @ [CallIterateContents (iterateOptions c)]\<rparr>"
  let ?p = "map (\<lambda>cis. concat (map (callback c (ContentReader rep) (blobMap s0)) cis)) (delivered ?it)"
  have s: "s = runWorkers (schedule ?it) ?p ?s1"
    using assms by (auto simp: verifyContents_def Let_def split: option.splits if_splits)
  show "blobMap s = blobMap s0" by (simp add: s runWorkers_blobMap)
  show "totalCount s = totalCount s0 + of_nat (length (concat (delivered ?it)))"
    using runWorkers_counters [of "schedule ?it" ?p ?s1]
    by (simp add: s concat_workers count_callbacks)
  show "errorCount s = errorCount s0 +
           of_nat (length (filter (\<lambda>ci. contentVerify c (ContentReader rep) ci (blobMap s0) \<noteq> None)
             (concat (delivered ?it))))"
    using runWorkers_counters [of "schedule ?it" ?p ?s1]
    by (simp add: s concat_workers count_callbacks)
  show "successCount s = successCount s0 +
           of_nat (length (filter (\<lambda>ci. contentVerify c (ContentReader rep) ci (blobMap s0) = None)
             (concat (delivered ?it))))"
    using runWorkers_counters [of "schedule ?it" ?p ?s1]
    by (simp add: s concat_workers count_callbacks)
qed

lemma verifyContents_trace:
  assumes "verifyContents c rep s0 = (res, s)"
  shows "\<exists>t. trace s = trace s0 @ [CallIterateContents (iterateOptions c)] @ t \<and>
           set t \<subseteq> range (LogErrorf ''error %v'')"
proof -
  let ?it = "IterateContents (ContentReader rep) (iterateOptions c)"
  let ?s1 = "s0\<lparr>trace := trace s0 @ [CallIterateContents (iterateOptions c)]\<rparr>"
  let ?p = "map (\<lambda>cis. concat (map (callback c (ContentReader rep) (blobMap s0)) cis)) (delivered ?it)"
  have s: "s = runWorkers (schedule ?it) ?p ?s1"
    using assms by (auto simp: verifyContents_def Let_def split: option.splits if_splits)
  from runWorkers_trace [of "schedule ?it" ?p ?s1] show ?thesis
    by (simp add: s)
qed

lemma verifyContents_result:
  assumes "verifyContents c rep s0 = (res, s)"
  shows "res =
     (case failure (IterateContents (ContentReader rep) (iterateOptions c)) of
        Some err \<Rightarrow> Done (Some (Wrap err ''iterate contents''))
      | None \<Rightarrow>
          if errorCount s = 0 then Done None
          else Done (Some (Errorf ''encountered %v errors'' [I32 (errorCount s)])))"
  using assms by (auto simp: verifyContents_def Let_def split: option.splits if_splits)

lemma dom_fold_blobMap:
  "dom (fold (\<lambda>bm m. m(BlobID bm \<mapsto> bm)) bms m0) = dom m0 \<union> BlobID ` set bms"
  by (induction bms arbitrary: m0) auto

lemma run_reaches_iteration:
  assumes "run c (Some rep) = (res, s)"
    and "contentVerifyFull c \<or> snd (ListBlobs (BlobReader rep) []) = None"
  shows "\<exists>s0. verifyContents c rep s0 = (res, s) \<and> totalCount s0 = 0 \<and> successCount s0 = 0 \<and>
           errorCount s0 = 0 \<and>
           trace s0 = (if contentVerifyFull c then [] else [CallListBlobs []]) \<and>
           blobMap s0 =
             (if contentVerifyFull c then Map.empty
              else fold (\<lambda>bm m. m(BlobID bm \<mapsto> bm)) (fst (ListBlobs (BlobReader rep) [])) Map.empty)"
proof (cases "contentVerifyFull c")
  case True
  with assms(1) show ?thesis
    by (auto simp: run_def initial_state_def)
next
  case False
  with assms(2) obtain bms where l: "ListBlobs (BlobReader rep) [] = (bms, None)"
    by (cases "ListBlobs (BlobReader rep) []") auto
  with False assms(1) show ?thesis
    by (auto simp: run_def initial_state_def readBlobMap_def)
qed

lemma run_trace_events:
  "set (trace (snd (run c rep))) \<subseteq>
     {CallListBlobs [], CallIterateContents (iterateOptions c)} \<union> range (LogErrorf ''error %v'')"
proof (cases rep)
  case None
  then show ?thesis by (simp add: run_def initial_state_def)
next
  case (Some r)
  show ?thesis
  proof (cases "contentVerifyFull c \<or> snd (ListBlobs (BlobReader r) []) = None")
    case True
    obtain s0 where v: "verifyContents c r s0 = (fst (run c (Some r)), snd (run c (Some r)))"
      and t0: "trace s0 = (if contentVerifyFull c then [] else [CallListBlobs []])"
      using run_reaches_iteration [OF surjective_pairing True] by blast
    obtain t where t: "trace (snd (run c (Some r))) =
        trace s0 @ [CallIterateContents (iterateOptions c)] @ t"
      "set t \<subseteq> range (LogErrorf ''error %v'')"
      using verifyContents_trace [OF v] by blast
    from t(2) show ?thesis
      by (auto simp: Some t(1) t0)
  next
    case False
    then obtain bms err where "ListBlobs (BlobReader r) [] = (bms, Some err)"
      by (cases "ListBlobs (BlobReader r) []") auto
    with False show ?thesis
      by (simp add: Some run_def readBlobMap_def)
  qed
qed

lemma scenario_run:
  "run scenario_cmd (Some scenario_rep) =
     (Done (Some (Errorf ''encountered %v errors'' [I32 2])),
      \<lparr>blobMap = [''B1'' \<mapsto> \<lparr>BlobID = ''B1'', Length = 1000\<rparr>],
       totalCount = 3, successCount = 1, errorCount = 2,
       trace =
         [CallListBlobs [],
          CallIterateContents \<lparr>Range = None, Parallel = 16, IncludeDeleted = False\<rparr>,
          LogErrorf ''error %v''
            (Errorf ''content %v out of bounds of its pack blob %v'' [Str ''C2'', Str ''B1'']),
          LogErrorf ''error %v''
            (Errorf ''content %v depends on missing blob %v'' [Str ''C3'', Str ''B2''])]\<rparr>)"
  by (simp add: run_def readBlobMap_def scenario_rep_def scenario_blobs_def scenario_cmd_def
      scenario_contents_def initial_state_def verifyContents_def iterateOptions_def callback_def
      contentVerify_def scenario_C1_def scenario_C2_def scenario_C3_def)

section \<open>The per-record check\<close>

text \<open>
  C3. In bounds mode, a record whose pack blob is not in the blob map fails with the
  error "content ... depends on missing blob ...", whatever its offset and length are,
  and never with the out-of-bounds error; the callback logs that error and counts
  the record as an error.
\<close>

theorem contentVerify_missing_blob:
  assumes "\<not> contentVerifyFull c" and "bm (PackBlobID ci) = None"
  shows "contentVerify c r ci bm =
           Some (Errorf ''content %v depends on missing blob %v''
                   [Str (ContentID ci), Str (PackBlobID ci)]) \<and>
         contentVerify c r ci bm \<noteq>
           Some (Errorf ''content %v out of bounds of its pack blob %v''
                   [Str (ContentID ci), Str (PackBlobID ci)]) \<and>
         callback c r bm ci =
           [LogFailure (Errorf ''content %v depends on missing blob %v''
                          [Str (ContentID ci), Str (PackBlobID ci)]), AddError, AddTotal]"
  using assms by (simp add: contentVerify_def callback_def)

theorem contentVerify_missing_blob_witness:
  "contentVerify scenario_cmd scenario_contents scenario_C3
     [''B1'' \<mapsto> \<lparr>BlobID = ''B1'', Length = 1000\<rparr>] =
     Some (Errorf ''content %v depends on missing blob %v'' [Str ''C3'', Str ''B2''])"
  using contentVerify_missing_blob [of scenario_cmd
      "[''B1'' \<mapsto> \<lparr>BlobID = ''B1'', Length = 1000\<rparr>]" scenario_C3 scenario_contents]
  by (simp add: scenario_cmd_def scenario_C3_def)

text \<open>
  The bounds check adds offset and length in their own unsigned type. If the sum
  stays below \<open>2 ^ LENGTH('w)\<close> (and the type is narrower than 64 bits) the check
  passes exactly when the sum is at most the length of the blob.
\<close>

lemma uint_max_plus_one: "uint (- 1 :: ('w::len) word) + uint (1 :: 'w word) = 2 ^ LENGTH('w)"
  by (simp add: unsigned_minus_1_eq_mask mask_eq_exp_minus_1)

lemma sint_ucast_small:
  fixes x :: "('w::len) word"
  assumes "LENGTH('w) < 64"
  shows "sint (ucast x :: 64 word) = uint x"
proof -
  have "uint x < 2 ^ LENGTH('w)" by simp
  also have "(2::int) ^ LENGTH('w) \<le> 2 ^ 63"
    using assms by (intro power_increasing) simp_all
  finally have "uint x < 2 ^ 63" .
  moreover have "- (2 ^ 63) \<le> uint x"
    by (rule order_trans [of _ 0]) simp_all
  ultimately have "signed_take_bit 63 (uint x) = uint x"
    by (intro signed_take_bit_int_eq_self) simp_all
  then show ?thesis
    by (simp add: signed_ucast_eq)
qed

lemma contentVerify_bounds_exact_unless_wrap:
  fixes ci :: "('w::len) word Info"
  assumes "\<not> contentVerifyFull c" and "bm (PackBlobID ci) = Some bi"
    and "LENGTH('w) < 64"
    and "uint (PackOffset ci) + uint (PackedLength ci) < 2 ^ LENGTH('w)"
  shows "(contentVerify c r ci bm = None) =
         (uint (PackOffset ci) + uint (PackedLength ci) \<le> sint (Length bi))"
proof -
  have "uint (PackOffset ci + PackedLength ci) = uint (PackOffset ci) + uint (PackedLength ci)"
    using assms(4) by (simp add: uint_add_lem)
  with assms show ?thesis
    by (auto simp: contentVerify_def sint_ucast_small)
qed

text \<open>
  C2. The claim asks for the check to compare the exact sum of offset and length with
  the length of the blob. The code does not: at every width of the unsigned type, a
  record with the largest offset and length 1 has the wrapped sum 0, so the check
  passes for any blob whose length is not negative, although the exact sum
  \<open>2 ^ LENGTH('w)\<close> is beyond the end of the blob.
\<close>

theorem contentVerify_bounds_sum_wraps:
  fixes ci :: "('w::len) word Info"
  assumes "\<not> contentVerifyFull c" and "bm (PackBlobID ci) = Some bi"
    and "PackOffset ci = - 1" and "PackedLength ci = 1"
    and "0 \<le> sint (Length bi)" and "sint (Length bi) < 2 ^ LENGTH('w)"
  shows "contentVerify c r ci bm = None \<and>
         sint (Length bi) < uint (PackOffset ci) + uint (PackedLength ci)"
  using assms uint_max_plus_one [where 'w = 'w]
  by (simp add: contentVerify_def)

theorem contentVerify_bounds_sum_wraps_witness:
  "contentVerify scenario_cmd scenario_contents wrapping_C4
     [''B1'' \<mapsto> \<lparr>BlobID = ''B1'', Length = 1000\<rparr>] = None \<and>
   (1000 :: int) < 4294967295 + 1"
  using contentVerify_bounds_sum_wraps [of scenario_cmd
      "[''B1'' \<mapsto> \<lparr>BlobID = ''B1'', Length = 1000\<rparr>]" wrapping_C4
      "\<lparr>BlobID = ''B1'', Length = 1000\<rparr>" scenario_contents]
  by (simp add: scenario_cmd_def wrapping_C4_def)

text \<open>
  C9, as the code has it. In full mode the check of a record passes exactly when
  fetching its bytes succeeds; a record whose bytes cannot be fetched adds one to the
  error counter and to the total, and nothing to the success counter, also when the
  record is within the bounds of its blob. Full mode returns before the blob map is
  looked up: its verdict is the same for every blob map and for every pack blob,
  offset and length of the record, so it makes no bounds check of its own.
\<close>

theorem contentVerify_full_mode:
  fixes ci :: "('w::len) word Info"
  assumes "contentVerifyFull c"
  shows "(contentVerify c r ci bm = None) = (\<not> isl (GetContent r (ContentID ci))) \<and>
         (isl (GetContent r (ContentID ci)) \<longrightarrow>
            errorCount (fold exec (callback c r bm ci) s) = errorCount s + 1 \<and>
            successCount (fold exec (callback c r bm ci) s) = successCount s \<and>
            totalCount (fold exec (callback c r bm ci) s) = totalCount s + 1) \<and>
         (\<forall>ci' bm'. ContentID ci' = ContentID ci \<longrightarrow>
            contentVerify c r ci' bm' = contentVerify c r ci bm)"
proof (intro conjI allI impI)
  show "(contentVerify c r ci bm = None) = (\<not> isl (GetContent r (ContentID ci)))"
    using assms by (simp add: contentVerify_def split: sum.splits)
next
  assume l: "isl (GetContent r (ContentID ci))"
  then obtain err where e: "GetContent r (ContentID ci) = Inl err"
    by (cases "GetContent r (ContentID ci)") simp_all
  have cb: "callback c r bm ci =
      [LogFailure (Wrapf err ''content %v is invalid'' [Str (ContentID ci)]), AddError, AddTotal]"
    using assms by (simp add: callback_def contentVerify_def e)
  show "errorCount (fold exec (callback c r bm ci) s) = errorCount s + 1"
    by (simp add: cb)
  show "successCount (fold exec (callback c r bm ci) s) = successCount s"
    by (simp add: cb)
  show "totalCount (fold exec (callback c r bm ci) s) = totalCount s + 1"
    by (simp add: cb)
next
  fix ci' :: "'w word Info" and bm'
  assume "ContentID ci' = ContentID ci"
  with assms show "contentVerify c r ci' bm' = contentVerify c r ci bm"
    by (simp add: contentVerify_def split: sum.splits)
qed

theorem contentVerify_full_mode_witness:
  "contentVerify scenario_cmd scenario_contents scenario_C1
     [''B1'' \<mapsto> \<lparr>BlobID = ''B1'', Length = 1000\<rparr>] = None \<and>
   contentVerify (scenario_cmd\<lparr>contentVerifyFull := True\<rparr>) scenario_contents scenario_C1
     [''B1'' \<mapsto> \<lparr>BlobID = ''B1'', Length = 1000\<rparr>] \<noteq> None \<and>
   errorCount (fold exec (callback (scenario_cmd\<lparr>contentVerifyFull := True\<rparr>) scenario_contents
     [''B1'' \<mapsto> \<lparr>BlobID = ''B1'', Length = 1000\<rparr>] scenario_C1) initial_state) = 1 \<and>
   contentVerify (scenario_cmd\<lparr>contentVerifyFull := True\<rparr>) scenario_contents
     (scenario_C1\<lparr>PackBlobID := ''B2'', PackOffset := 900\<rparr>) Map.empty =
     contentVerify (scenario_cmd\<lparr>contentVerifyFull := True\<rparr>) scenario_contents scenario_C1
       [''B1'' \<mapsto> \<lparr>BlobID = ''B1'', Length = 1000\<rparr>]"
proof -
  have f: "contentVerifyFull (scenario_cmd\<lparr>contentVerifyFull := True\<rparr>)"
    by simp
  have i: "ContentID (scenario_C1\<lparr>PackBlobID := ''B2'', PackOffset := 900\<rparr>) =
      ContentID scenario_C1"
    by simp
  have l: "isl (GetContent scenario_contents (ContentID scenario_C1))"
    by (simp add: scenario_contents_def scenario_C1_def)
  have b: "contentVerify scenario_cmd scenario_contents scenario_C1
      [''B1'' \<mapsto> \<lparr>BlobID = ''B1'', Length = 1000\<rparr>] = None"
    by (simp add: contentVerify_def scenario_cmd_def scenario_C1_def)
  note t = contentVerify_full_mode [OF f, of scenario_contents scenario_C1
      "[''B1'' \<mapsto> \<lparr>BlobID = ''B1'', Length = 1000\<rparr>]" initial_state]
  from t l have v: "contentVerify (scenario_cmd\<lparr>contentVerifyFull := True\<rparr>) scenario_contents
      scenario_C1 [''B1'' \<mapsto> \<lparr>BlobID = ''B1'', Length = 1000\<rparr>] \<noteq> None"
    by blast
  from t l have e: "errorCount (fold exec (callback (scenario_cmd\<lparr>contentVerifyFull := True\<rparr>)
      scenario_contents [''B1'' \<mapsto> \<lparr>BlobID = ''B1'', Length = 1000\<rparr>] scenario_C1)
      initial_state) = errorCount initial_state + 1"
    by blast
  from t i have m: "contentVerify (scenario_cmd\<lparr>contentVerifyFull := True\<rparr>) scenario_contents
      (scenario_C1\<lparr>PackBlobID := ''B2'', PackOffset := 900\<rparr>) Map.empty =
      contentVerify (scenario_cmd\<lparr>contentVerifyFull := True\<rparr>) scenario_contents scenario_C1
        [''B1'' \<mapsto> \<lparr>BlobID = ''B1'', Length = 1000\<rparr>]"
    by blast
  have z: "errorCount initial_state = 0"
    by (simp add: initial_state_def)
  from b v e m show ?thesis
    by (simp only: z) simp
qed

text \<open>
  C9, as claimed, fails: full mode is not stricter than bounds mode. The record
  \<open>C2\<close> ends beyond its blob, so bounds mode rejects it as out of bounds; its bytes
  can be fetched, so full mode accepts it.
\<close>

theorem full_mode_accepts_what_bounds_mode_rejects:
  "contentVerify scenario_cmd scenario_contents scenario_C2
     [''B1'' \<mapsto> \<lparr>BlobID = ''B1'', Length = 1000\<rparr>] =
     Some (Errorf ''content %v out of bounds of its pack blob %v'' [Str ''C2'', Str ''B1'']) \<and>
   contentVerify (scenario_cmd\<lparr>contentVerifyFull := True\<rparr>) scenario_contents scenario_C2
     [''B1'' \<mapsto> \<lparr>BlobID = ''B1'', Length = 1000\<rparr>] = None"
  by (simp add: contentVerify_def scenario_cmd_def scenario_C2_def scenario_contents_def)

section \<open>The verification run\<close>

text \<open>
  C4. When the run reaches the iteration (full mode, or the blob listing succeeded),
  then for every number of workers, every distribution of the records over them and
  every schedule of their atomic steps: the total counter is the number of records
  visited, the success counter the number of records that pass the check, the error
  counter the number that fail it (all as \<open>int32\<close>), and total = success + error.
  This holds whether or not the iteration then reports a failure.
\<close>

theorem run_counters:
  assumes "run c (Some rep) = (res, s)"
    and "contentVerifyFull c \<or> snd (ListBlobs (BlobReader rep) []) = None"
    and "cis = concat (delivered (IterateContents (ContentReader rep) (iterateOptions c)))"
  shows "totalCount s = successCount s + errorCount s \<and>
         totalCount s = of_nat (length cis) \<and>
         successCount s =
           of_nat (length (filter (\<lambda>ci. contentVerify c (ContentReader rep) ci (blobMap s) = None) cis)) \<and>
         errorCount s =
           of_nat (length (filter (\<lambda>ci. contentVerify c (ContentReader rep) ci (blobMap s) \<noteq> None) cis))"
proof -
  obtain s0 where v: "verifyContents c rep s0 = (res, s)"
    and z: "totalCount s0 = 0" "successCount s0 = 0" "errorCount s0 = 0"
    using run_reaches_iteration [OF assms(1,2)] by blast
  let ?ok = "\<lambda>ci. contentVerify c (ContentReader rep) ci (blobMap s) = None"
  have bm: "blobMap s = blobMap s0"
    by (rule verifyContents_counters(1) [OF v])
  have t: "totalCount s = of_nat (length cis)"
    using verifyContents_counters(2) [OF v] by (simp add: z assms(3))
  have e: "errorCount s = of_nat (length (filter (\<lambda>ci. \<not> ?ok ci) cis))"
    using verifyContents_counters(3) [OF v] by (simp add: z assms(3) bm)
  have k: "successCount s = of_nat (length (filter ?ok cis))"
    using verifyContents_counters(4) [OF v] by (simp add: z assms(3) bm)
  have "length cis = length (filter ?ok cis) + length (filter (\<lambda>ci. \<not> ?ok ci) cis)"
    by (rule sum_length_filter_compl [symmetric])
  then have "totalCount s = successCount s + errorCount s"
    by (simp only: t e k of_nat_add)
  with t e k show ?thesis by simp
qed

theorem run_counters_witness:
  "totalCount (snd (run scenario_cmd (Some scenario_rep))) = 3 \<and>
   successCount (snd (run scenario_cmd (Some scenario_rep))) = 1 \<and>
   errorCount (snd (run scenario_cmd (Some scenario_rep))) = 2 \<and>
   totalCount (snd (run scenario_cmd (Some scenario_rep))) =
     successCount (snd (run scenario_cmd (Some scenario_rep))) +
     errorCount (snd (run scenario_cmd (Some scenario_rep)))"
proof -
  have l: "contentVerifyFull scenario_cmd \<or>
      snd (ListBlobs (BlobReader scenario_rep) []) = None"
    by (simp add: scenario_rep_def scenario_blobs_def)
  from run_counters [OF scenario_run l refl] show ?thesis
    by (simp add: scenario_run)
qed

text \<open>
  C5. When the iteration completes without a failure, the run returns \<open>nil\<close> exactly
  when the error counter is zero, and otherwise the error "encountered ... errors"
  whose only argument is the error counter.
\<close>

theorem run_report:
  assumes "run c (Some rep) = (res, s)"
    and "contentVerifyFull c \<or> snd (ListBlobs (BlobReader rep) []) = None"
    and "failure (IterateContents (ContentReader rep) (iterateOptions c)) = None"
  shows "(res = Done None) = (errorCount s = 0) \<and>
         res = (if errorCount s = 0 then Done None
                else Done (Some (Errorf ''encountered %v errors'' [I32 (errorCount s)])))"
proof -
  obtain s0 where v: "verifyContents c rep s0 = (res, s)"
    using run_reaches_iteration [OF assms(1,2)] by blast
  from verifyContents_result [OF v] assms(3) show ?thesis
    by simp
qed

theorem run_report_witness:
  "fst (run scenario_cmd (Some scenario_rep)) =
     Done (Some (Errorf ''encountered %v errors'' [I32 2])) \<and>
   errorCount (snd (run scenario_cmd (Some scenario_rep))) = 2"
proof -
  have l: "contentVerifyFull scenario_cmd \<or>
      snd (ListBlobs (BlobReader scenario_rep) []) = None"
    by (simp add: scenario_rep_def scenario_blobs_def)
  have f: "failure (IterateContents (ContentReader scenario_rep) (iterateOptions scenario_cmd)) = None"
    by (simp add: scenario_rep_def scenario_contents_def)
  from run_report [OF scenario_run l f] show ?thesis
    by (simp add: scenario_run)
qed

text \<open>
  C6. Bounds mode lists the blobs first and then starts the iteration, with a blob
  map that holds every blob listed; if the listing fails the run returns the wrapped
  listing error, having called nothing but \<open>ListBlobs\<close>, with all counters zero.
  Full mode never calls \<open>ListBlobs\<close> and its blob map stays empty.
\<close>

theorem run_blob_listing:
  assumes "run c (Some rep) = (res, s)"
  shows "(\<not> contentVerifyFull c \<and> snd (ListBlobs (BlobReader rep) []) = None \<longrightarrow>
            take 2 (trace s) = [CallListBlobs [], CallIterateContents (iterateOptions c)] \<and>
            set (drop 2 (trace s)) \<subseteq> range (LogErrorf ''error %v'') \<and>
            blobMap s =
              fold (\<lambda>bm m. m(BlobID bm \<mapsto> bm)) (fst (ListBlobs (BlobReader rep) [])) Map.empty \<and>
            dom (blobMap s) = BlobID ` set (fst (ListBlobs (BlobReader rep) []))) \<and>
         (\<forall>err. \<not> contentVerifyFull c \<and> snd (ListBlobs (BlobReader rep) []) = Some err \<longrightarrow>
            res = Done (Some (Wrap err ''unable to list blobs'')) \<and>
            trace s = [CallListBlobs []] \<and>
            totalCount s = 0 \<and> successCount s = 0 \<and> errorCount s = 0) \<and>
         (contentVerifyFull c \<longrightarrow>
            (\<forall>prefix. CallListBlobs prefix \<notin> set (trace s)) \<and> blobMap s = Map.empty)"
proof (intro conjI impI allI)
  assume a: "\<not> contentVerifyFull c \<and> snd (ListBlobs (BlobReader rep) []) = None"
  then obtain s0 where v: "verifyContents c rep s0 = (res, s)"
    and t0: "trace s0 = [CallListBlobs []]"
    and b0: "blobMap s0 =
      fold (\<lambda>bm m. m(BlobID bm \<mapsto> bm)) (fst (ListBlobs (BlobReader rep) [])) Map.empty"
    using run_reaches_iteration [OF assms] by auto
  obtain t where t: "trace s = trace s0 @ [CallIterateContents (iterateOptions c)] @ t"
    "set t \<subseteq> range (LogErrorf ''error %v'')"
    using verifyContents_trace [OF v] by blast
  show "take 2 (trace s) = [CallListBlobs [], CallIterateContents (iterateOptions c)]"
    by (simp add: t t0)
  show "set (drop 2 (trace s)) \<subseteq> range (LogErrorf ''error %v'')"
    using t(2) by (simp add: t(1) t0)
  show m: "blobMap s =
      fold (\<lambda>bm m. m(BlobID bm \<mapsto> bm)) (fst (ListBlobs (BlobReader rep) [])) Map.empty"
    using verifyContents_counters(1) [OF v] b0 by simp
  show "dom (blobMap s) = BlobID ` set (fst (ListBlobs (BlobReader rep) []))"
    by (simp add: m dom_fold_blobMap)
next
  fix err
  assume a: "\<not> contentVerifyFull c \<and> snd (ListBlobs (BlobReader rep) []) = Some err"
  then obtain bms where "ListBlobs (BlobReader rep) [] = (bms, Some err)"
    by (cases "ListBlobs (BlobReader rep) []") auto
  with a assms have r: "res = Done (Some (Wrap err ''unable to list blobs''))"
    "s = initial_state\<lparr>trace := [CallListBlobs []]\<rparr>"
    by (auto simp: run_def readBlobMap_def)
  show "res = Done (Some (Wrap err ''unable to list blobs''))" by (rule r(1))
  show "trace s = [CallListBlobs []]" by (simp add: r(2))
  show "totalCount s = 0" "successCount s = 0" "errorCount s = 0"
    by (simp_all add: r(2) initial_state_def)
next
  assume a: "contentVerifyFull c"
  then obtain s0 where v: "verifyContents c rep s0 = (res, s)"
    and t0: "trace s0 = []" and b0: "blobMap s0 = Map.empty"
    using run_reaches_iteration [OF assms] by auto
  obtain t where t: "trace s = trace s0 @ [CallIterateContents (iterateOptions c)] @ t"
    "set t \<subseteq> range (LogErrorf ''error %v'')"
    using verifyContents_trace [OF v] by blast
  show "blobMap s = Map.empty"
    using verifyContents_counters(1) [OF v] b0 by simp
  fix prefix
  show "CallListBlobs prefix \<notin> set (trace s)"
    using t(2) by (auto simp: t(1) t0)
qed

theorem run_blob_listing_witness:
  "take 2 (trace (snd (run scenario_cmd (Some scenario_rep)))) =
     [CallListBlobs [], CallIterateContents (iterateOptions scenario_cmd)] \<and>
   dom (blobMap (snd (run scenario_cmd (Some scenario_rep)))) = {''B1''} \<and>
   run scenario_cmd (Some (scenario_rep\<lparr>BlobReader := failing_blobs\<rparr>)) =
     (Done (Some (Wrap (External ''listing failed'') ''unable to list blobs'')),
      initial_state\<lparr>trace := [CallListBlobs []]\<rparr>) \<and>
   blobMap (snd (run (scenario_cmd\<lparr>contentVerifyFull := True\<rparr>) (Some scenario_rep))) = Map.empty \<and>
   CallListBlobs [] \<notin> set (trace (snd (run (scenario_cmd\<lparr>contentVerifyFull := True\<rparr>) (Some scenario_rep))))"
proof -
  have a: "\<not> contentVerifyFull scenario_cmd \<and> snd (ListBlobs (BlobReader scenario_rep) []) = None"
    by (simp add: scenario_cmd_def scenario_rep_def scenario_blobs_def)
  have b: "\<not> contentVerifyFull scenario_cmd \<and>
      snd (ListBlobs (BlobReader (scenario_rep\<lparr>BlobReader := failing_blobs\<rparr>)) []) =
        Some (External ''listing failed'')"
    by (simp add: scenario_cmd_def failing_blobs_def)
  have c: "contentVerifyFull (scenario_cmd\<lparr>contentVerifyFull := True\<rparr>)"
    by simp
  have l: "fst (ListBlobs (BlobReader scenario_rep) []) = [\<lparr>BlobID = ''B1'', Length = 1000\<rparr>]"
    by (simp add: scenario_rep_def scenario_blobs_def)
  have r: "run scenario_cmd (Some (scenario_rep\<lparr>BlobReader := failing_blobs\<rparr>)) =
      (Done (Some (Wrap (External ''listing failed'') ''unable to list blobs'')),
       initial_state\<lparr>trace := [CallListBlobs []]\<rparr>)"
    by (simp add: run_def readBlobMap_def failing_blobs_def scenario_cmd_def)
  from run_blob_listing [OF surjective_pairing, of scenario_cmd scenario_rep] a
    run_blob_listing [OF surjective_pairing, of scenario_cmd
      "scenario_rep\<lparr>BlobReader := failing_blobs\<rparr>"] b
    run_blob_listing [OF surjective_pairing, of "scenario_cmd\<lparr>contentVerifyFull := True\<rparr>"
      scenario_rep] c
  show ?thesis
    by (simp add: l r)
qed

section \<open>Automatic maintenance\<close>

text \<open>
  C7. \<open>maybeRunMaintenance\<close> returns \<open>nil\<close> and opens no write session when
  automatic maintenance is disabled, when the repository is read-only, or when it is
  not a direct repository; and when the maintenance session runs and fails with an
  error that is, or wraps, a \<open>NotOwnedError\<close>, it returns \<open>nil\<close> as well.
\<close>

theorem maybeRunMaintenance_gate:
  "(\<not> enableAutomaticMaintenance c \<or> ReadOnly rep \<or> direct rep = None \<longrightarrow>
      maybeRunMaintenance c rep = (None, [])) \<and>
   (\<forall>dr e. enableAutomaticMaintenance c \<and> \<not> ReadOnly rep \<and> direct rep = Some dr \<and>
      DirectWriteSession dr ''maybeRunMaintenance'' = Some e \<and> isNotOwned e \<longrightarrow>
      maybeRunMaintenance c rep = (None, [CallDirectWriteSession ''maybeRunMaintenance'']))"
  by (auto simp: maybeRunMaintenance_def errors_As_NotOwned_def)

theorem maybeRunMaintenance_gate_witness:
  "maybeRunMaintenance (scenario_app\<lparr>enableAutomaticMaintenance := False\<rparr>) scenario_repository =
     (None, []) \<and>
   maybeRunMaintenance scenario_app (scenario_repository\<lparr>ReadOnly := True\<rparr>) = (None, []) \<and>
   maybeRunMaintenance scenario_app (scenario_repository\<lparr>direct := None\<rparr>) = (None, []) \<and>
   maybeRunMaintenance scenario_app
     (scenario_repository\<lparr>direct := Some (scenario_rep\<lparr>DirectWriteSession :=
        \<lambda>purpose. Some (Wrap (NotOwnedError ''other process'') ''maintenance'')\<rparr>)\<rparr>) =
     (None, [CallDirectWriteSession ''maybeRunMaintenance''])"
  using maybeRunMaintenance_gate [of "scenario_app\<lparr>enableAutomaticMaintenance := False\<rparr>"
      scenario_repository]
    maybeRunMaintenance_gate [of scenario_app "scenario_repository\<lparr>ReadOnly := True\<rparr>"]
    maybeRunMaintenance_gate [of scenario_app "scenario_repository\<lparr>direct := None\<rparr>"]
    maybeRunMaintenance_gate [of scenario_app
      "scenario_repository\<lparr>direct := Some (scenario_rep\<lparr>DirectWriteSession :=
         \<lambda>purpose. Some (Wrap (NotOwnedError ''other process'') ''maintenance'')\<rparr>)\<rparr>"]
  by (simp add: scenario_app_def scenario_repository_def)

section \<open>The guarded action\<close>

lemma repositoryActionBody_reached:
  assumes "metricsListenAddr c = [] \<or> initPrometheus c = None"
    and "openRepository c (mustBeConnected mode) = (rep, oerr)"
    and "oerr = None \<or> \<not> mustBeConnected mode"
    and "act rep = (Done aerr, ta)"
  shows "repositoryActionBody c act mode =
     ((case rep of
         Some r \<Rightarrow>
           if mustBeConnected mode then
             (case Close r of
                Some cerr \<Rightarrow> Done (Some (Wrap cerr ''unable to close repository''))
              | None \<Rightarrow> Done aerr)
           else Done aerr
       | None \<Rightarrow> Done aerr),
      (if metricsListenAddr c \<noteq> [] then [CallInitPrometheus] else []) @
      [CallOpenRepository (mustBeConnected mode), CallAct] @ ta @
      (case rep of
         Some r \<Rightarrow>
           (if \<not> disableMaintenance mode then
              [CallMaybeRunMaintenance] @ snd (maybeRunMaintenance c r) @
              (case fst (maybeRunMaintenance c r) of
                 Some merr \<Rightarrow> [LogErrorf ''error running maintenance: %v'' merr]
               | None \<Rightarrow> [])
            else []) @
           (if mustBeConnected mode then [CallClose] else [])
       | None \<Rightarrow> []))"
  using assms
  by (auto simp: repositoryActionBody_def Let_def split: option.splits prod.splits)

lemma repositoryActionBody_no_maintenance:
  assumes "disableMaintenance mode"
  shows "set (snd (repositoryActionBody c act mode)) \<subseteq>
     {CallInitPrometheus, CallOpenRepository (mustBeConnected mode), CallAct, CallClose} \<union>
     (\<Union>rep. set (snd (act rep)))"
proof -
  obtain rep oerr where o: "openRepository c (mustBeConnected mode) = (rep, oerr)"
    by (cases "openRepository c (mustBeConnected mode)")
  obtain ares ta where ac: "act rep = (ares, ta)"
    by (cases "act rep")
  have "set (snd (act rep)) \<subseteq> (\<Union>rep. set (snd (act rep)))"
    by blast
  then have ta: "set ta \<subseteq> (\<Union>rep. set (snd (act rep)))"
    by (simp add: ac)
  show ?thesis
  proof (cases ares)
    case Panicked
    with ta assms show ?thesis
      by (auto simp: repositoryActionBody_def Let_def o ac)
  next
    case (Done aerr)
    with ta assms show ?thesis
      by (auto simp: repositoryActionBody_def Let_def o ac split: option.splits)
  qed
qed

lemma maybeRepositoryAction_no_maintenance:
  assumes "disableMaintenance mode"
  shows "set (snd (maybeRepositoryAction c act mode)) \<subseteq>
     {CallInitPrometheus, CallOpenRepository (mustBeConnected mode), CallAct, CallClose, OsExit 1} \<union>
     range (LogErrorf ''ERROR: %v'') \<union> (\<Union>rep. set (snd (act rep)))"
proof -
  obtain res t where b: "repositoryActionBody c act mode = (res, t)"
    by (cases "repositoryActionBody c act mode")
  with repositoryActionBody_no_maintenance [OF assms, of c act]
  have "set t \<subseteq> {CallInitPrometheus, CallOpenRepository (mustBeConnected mode), CallAct, CallClose} \<union>
     (\<Union>rep. set (snd (act rep)))"
    by simp
  then show ?thesis
    by (auto simp: maybeRepositoryAction_def withProfiling_def b split: result.splits option.splits)
qed

lemma assertDirectRepository_trace:
  "set (snd (assertDirectRepository act rep)) \<subseteq> (\<Union>lr. set (snd (act lr)))"
  by (auto simp: assertDirectRepository_def split: option.splits)

text \<open>
  C8. When the repository was opened, the action has returned (with an error or
  without) and the access mode does not disable maintenance, \<open>maybeRunMaintenance\<close>
  is called right after the action; an error it returns is logged and nothing else:
  the result is the one the same action has under an access mode that disables
  maintenance, namely the result of the action or the wrapped close error.
\<close>

theorem maintenance_after_action_not_escalated:
  assumes "metricsListenAddr c = [] \<or> initPrometheus c = None"
    and "openRepository c (mustBeConnected mode) = (Some r, oerr)"
    and "oerr = None \<or> \<not> mustBeConnected mode"
    and "act (Some r) = (Done aerr, ta)"
    and "\<not> disableMaintenance mode"
  shows "snd (repositoryActionBody c act mode) =
           (if metricsListenAddr c \<noteq> [] then [CallInitPrometheus] else []) @
           [CallOpenRepository (mustBeConnected mode), CallAct] @ ta @
           [CallMaybeRunMaintenance] @ snd (maybeRunMaintenance c r) @
           (case fst (maybeRunMaintenance c r) of
              Some merr \<Rightarrow> [LogErrorf ''error running maintenance: %v'' merr]
            | None \<Rightarrow> []) @
           (if mustBeConnected mode then [CallClose] else []) \<and>
         fst (repositoryActionBody c act mode) =
           fst (repositoryActionBody c act (mode\<lparr>disableMaintenance := True\<rparr>)) \<and>
         (fst (repositoryActionBody c act mode) = Done aerr \<or>
          (\<exists>cerr. Close r = Some cerr \<and>
             fst (repositoryActionBody c act mode) =
               Done (Some (Wrap cerr ''unable to close repository''))))"
proof -
  let ?quiet = "mode\<lparr>disableMaintenance := True\<rparr>"
  have o: "openRepository c (mustBeConnected ?quiet) = (Some r, oerr)"
    using assms(2) by simp
  have e: "oerr = None \<or> \<not> mustBeConnected ?quiet"
    using assms(3) by simp
  note with_maintenance =
    repositoryActionBody_reached [where act = act and rep = "Some r", OF assms(1-4)]
  note without_maintenance =
    repositoryActionBody_reached [where act = act and rep = "Some r", OF assms(1) o e assms(4)]
  show ?thesis
    using assms(5) by (auto simp: with_maintenance without_maintenance split: option.splits)
qed

theorem maintenance_after_action_not_escalated_witness:
  "repositoryActionBody scenario_app failing_act maintained_mode =
     (Done (Some (External ''action failed'')),
      [CallOpenRepository True, CallAct, CallMaybeRunMaintenance,
       CallDirectWriteSession ''maybeRunMaintenance'',
       LogErrorf ''error running maintenance: %v''
         (Wrap (External ''maintenance failed'') ''error running maintenance''),
       CallClose]) \<and>
   fst (repositoryActionBody scenario_app failing_act (maintained_mode\<lparr>disableMaintenance := True\<rparr>)) =
     Done (Some (External ''action failed''))"
proof -
  have 1: "metricsListenAddr scenario_app = [] \<or> initPrometheus scenario_app = None"
    by (simp add: scenario_app_def)
  have 2: "openRepository scenario_app (mustBeConnected maintained_mode) =
      (Some scenario_repository, None)"
    by (simp add: scenario_app_def)
  have 3: "None = None \<or> \<not> mustBeConnected maintained_mode"
    by simp
  have 4: "failing_act (Some scenario_repository) = (Done (Some (External ''action failed'')), [])"
    by (simp add: failing_act_def)
  have 5: "\<not> disableMaintenance maintained_mode"
    by (simp add: maintained_mode_def)
  have m: "maybeRunMaintenance scenario_app scenario_repository =
      (Some (Wrap (External ''maintenance failed'') ''error running maintenance''),
       [CallDirectWriteSession ''maybeRunMaintenance''])"
    by (simp add: maybeRunMaintenance_def scenario_app_def scenario_repository_def
        scenario_rep_def errors_As_NotOwned_def errors_Wrap_def)
  have b: "fst (repositoryActionBody scenario_app failing_act maintained_mode) =
      Done (Some (External ''action failed''))"
    using repositoryActionBody_reached
      [where act = failing_act and rep = "Some scenario_repository", OF 1 2 3 4]
    by (simp add: maintained_mode_def scenario_repository_def)
  have t: "metricsListenAddr scenario_app = []" "mustBeConnected maintained_mode"
    by (simp_all add: scenario_app_def maintained_mode_def)
  from maintenance_after_action_not_escalated
    [where act = failing_act and r = scenario_repository, OF 1 2 3 4 5]
  show ?thesis
    by (simp add: m b t prod_eq_iff)
qed

text \<open>
  C1, as the code has it. When the repository is closed (there is a repository and
  the access mode requires the connection) and closing fails, the result is the close
  error wrapped as "unable to close repository", whether the action failed or not,
  and it is this error that is logged before the process exits with status 1. The
  error of the action is the result when the repository is not closed or closing
  succeeds.
\<close>

theorem close_error_precedence:
  assumes "metricsListenAddr c = [] \<or> initPrometheus c = None"
    and "openRepository c (mustBeConnected mode) = (rep, oerr)"
    and "oerr = None \<or> \<not> mustBeConnected mode"
    and "act rep = (Done aerr, ta)"
  shows "(\<forall>r cerr. rep = Some r \<and> mustBeConnected mode \<and> Close r = Some cerr \<longrightarrow>
            fst (repositoryActionBody c act mode) =
              Done (Some (Wrap cerr ''unable to close repository'')) \<and>
            maybeRepositoryAction c act mode =
              (Exited 1,
               snd (repositoryActionBody c act mode) @
               [LogErrorf ''ERROR: %v'' (Wrap cerr ''unable to close repository''), OsExit 1])) \<and>
         (rep = None \<or> \<not> mustBeConnected mode \<or> (\<exists>r. rep = Some r \<and> Close r = None) \<longrightarrow>
            fst (repositoryActionBody c act mode) = Done aerr)"
  by (auto simp: repositoryActionBody_reached [where act = act and rep = rep, OF assms]
      maybeRepositoryAction_def withProfiling_def split: option.splits)

theorem close_error_precedence_witness:
  "fst (repositoryActionBody
          (scenario_app\<lparr>openRepository := \<lambda>required.
             (Some (scenario_repository\<lparr>Close := Some (External ''close failed'')\<rparr>), None)\<rparr>)
          failing_act directRepositoryReadActionMode) =
     Done (Some (Wrap (External ''close failed'') ''unable to close repository'')) \<and>
   fst (maybeRepositoryAction
          (scenario_app\<lparr>openRepository := \<lambda>required.
             (Some (scenario_repository\<lparr>Close := Some (External ''close failed'')\<rparr>), None)\<rparr>)
          failing_act directRepositoryReadActionMode) = Exited 1 \<and>
   fst (repositoryActionBody scenario_app failing_act directRepositoryReadActionMode) =
     Done (Some (External ''action failed''))"
proof -
  let ?r = "scenario_repository\<lparr>Close := Some (External ''close failed'')\<rparr>"
  let ?c = "scenario_app\<lparr>openRepository := \<lambda>required. (Some ?r, None)\<rparr>"
  have 1: "metricsListenAddr ?c = [] \<or> initPrometheus ?c = None"
    "metricsListenAddr scenario_app = [] \<or> initPrometheus scenario_app = None"
    by (simp_all add: scenario_app_def)
  have 2: "openRepository ?c (mustBeConnected directRepositoryReadActionMode) = (Some ?r, None)"
    "openRepository scenario_app (mustBeConnected directRepositoryReadActionMode) =
       (Some scenario_repository, None)"
    by (simp_all add: scenario_app_def)
  have 3: "None = None \<or> \<not> mustBeConnected directRepositoryReadActionMode"
    by simp
  have 4: "failing_act (Some ?r) = (Done (Some (External ''action failed'')), [])"
    "failing_act (Some scenario_repository) = (Done (Some (External ''action failed'')), [])"
    by (simp_all add: failing_act_def)
  from close_error_precedence [where act = failing_act and rep = "Some ?r", OF 1(1) 2(1) 3 4(1)]
    close_error_precedence
      [where act = failing_act and rep = "Some scenario_repository", OF 1(2) 2(2) 3 4(2)]
  show ?thesis
    by (simp add: directRepositoryReadActionMode_def scenario_repository_def)
qed

text \<open>
  C1, as claimed, fails: with an action that fails and a repository whose close
  fails, the result is the close error, not the error of the action.
\<close>

theorem close_error_overrides_action_error:
  "fst (failing_act (Some (scenario_repository\<lparr>Close := Some (External ''close failed'')\<rparr>))) =
     Done (Some (External ''action failed'')) \<and>
   Close (scenario_repository\<lparr>Close := Some (External ''close failed'')\<rparr>) =
     Some (External ''close failed'') \<and>
   fst (repositoryActionBody
          (scenario_app\<lparr>openRepository := \<lambda>required.
             (Some (scenario_repository\<lparr>Close := Some (External ''close failed'')\<rparr>), None)\<rparr>)
          failing_act directRepositoryReadActionMode) =
     Done (Some (Wrap (External ''close failed'') ''unable to close repository'')) \<and>
   fst (repositoryActionBody
          (scenario_app\<lparr>openRepository := \<lambda>required.
             (Some (scenario_repository\<lparr>Close := Some (External ''close failed'')\<rparr>), None)\<rparr>)
          failing_act directRepositoryReadActionMode) \<noteq>
     Done (Some (External ''action failed''))"
  by (simp add: repositoryActionBody_def scenario_app_def failing_act_def
      directRepositoryReadActionMode_def scenario_repository_def split: prod.splits)

text \<open>
  C10. The content verification command runs under \<open>maybeRepositoryAction\<close> with
  an access mode that requires the connection and disables maintenance: whatever
  the application and the repository are, \<open>maybeRunMaintenance\<close> is not called and
  no write session is opened.
\<close>

theorem content_verify_runs_no_maintenance:
  fixes svc :: "('w::len) word App"
  shows "commandContentVerify_setup svc c =
     maybeRepositoryAction svc
       (assertDirectRepository (\<lambda>rep. (fst (run c rep), trace (snd (run c rep)))))
       \<lparr>mustBeConnected = True, disableMaintenance = True\<rparr> \<and>
   CallMaybeRunMaintenance \<notin> set (snd (commandContentVerify_setup svc c)) \<and>
   (\<forall>purpose. CallDirectWriteSession purpose \<notin> set (snd (commandContentVerify_setup svc c)))"
proof -
  let ?act = "\<lambda>rep :: 'w word DirectRepository option. (fst (run c rep), trace (snd (run c rep)))"
  have d: "commandContentVerify_setup svc c =
     maybeRepositoryAction svc (assertDirectRepository ?act)
       \<lparr>mustBeConnected = True, disableMaintenance = True\<rparr>"
    by (simp add: commandContentVerify_setup_def directRepositoryReadAction_def
        directRepositoryReadActionMode_def)
  have "set (snd (assertDirectRepository ?act rep)) \<subseteq>
      {CallListBlobs [], CallIterateContents (iterateOptions c)} \<union> range (LogErrorf ''error %v'')"
    for rep :: "'w word Repository option"
    using assertDirectRepository_trace [of ?act rep] run_trace_events [of c]
    by auto
  then have a: "(\<Union>rep. set (snd (assertDirectRepository ?act rep))) \<subseteq>
      {CallListBlobs [], CallIterateContents (iterateOptions c)} \<union> range (LogErrorf ''error %v'')"
    by blast
  have "set (snd (commandContentVerify_setup svc c)) \<subseteq>
     {CallInitPrometheus, CallOpenRepository True, CallAct, CallClose, OsExit 1} \<union>
     range (LogErrorf ''ERROR: %v'') \<union>
     ({CallListBlobs [], CallIterateContents (iterateOptions c)} \<union> range (LogErrorf ''error %v''))"
    using maybeRepositoryAction_no_maintenance
      [of "\<lparr>mustBeConnected = True, disableMaintenance = True\<rparr>" svc "assertDirectRepository ?act"] a
    unfolding d by auto
  then have "CallMaybeRunMaintenance \<notin> set (snd (commandContentVerify_setup svc c))"
    and "\<And>purpose. CallDirectWriteSession purpose \<notin> set (snd (commandContentVerify_setup svc c))"
    by auto
  with d show ?thesis by blast
qed

theorem content_verify_runs_no_maintenance_witness:
  "enableAutomaticMaintenance scenario_app \<and> \<not> ReadOnly scenario_repository \<and>
   direct scenario_repository = Some scenario_rep \<and>
   commandContentVerify_setup scenario_app scenario_cmd =
     (Exited 1,
      [CallOpenRepository True, CallAct, CallListBlobs [],
       CallIterateContents \<lparr>Range = None, Parallel = 16, IncludeDeleted = False\<rparr>,
       LogErrorf ''error %v''
         (Errorf ''content %v out of bounds of its pack blob %v'' [Str ''C2'', Str ''B1'']),
       LogErrorf ''error %v''
         (Errorf ''content %v depends on missing blob %v'' [Str ''C3'', Str ''B2'']),
       CallClose,
       LogErrorf ''ERROR: %v'' (Errorf ''encountered %v errors'' [I32 2]),
       OsExit 1]) \<and>
   CallMaybeRunMaintenance \<notin> set (snd (commandContentVerify_setup scenario_app scenario_cmd))"
proof -
  have "commandContentVerify_setup scenario_app scenario_cmd =
     (Exited 1,
      [CallOpenRepository True, CallAct, CallListBlobs [],
       CallIterateContents \<lparr>Range = None, Parallel = 16, IncludeDeleted = False\<rparr>,
       LogErrorf ''error %v''
         (Errorf ''content %v out of bounds of its pack blob %v'' [Str ''C2'', Str ''B1'']),
       LogErrorf ''error %v''
         (Errorf ''content %v depends on missing blob %v'' [Str ''C3'', Str ''B2'']),
       CallClose,
       LogErrorf ''ERROR: %v'' (Errorf ''encountered %v errors'' [I32 2]),
       OsExit 1])"
    using content_verify_runs_no_maintenance [of scenario_app scenario_cmd]
    by (simp add: maybeRepositoryAction_def withProfiling_def repositoryActionBody_def
        assertDirectRepository_def scenario_app_def scenario_repository_def scenario_run)
  moreover have "CallMaybeRunMaintenance \<notin> set (snd (commandContentVerify_setup scenario_app scenario_cmd))"
    using content_verify_runs_no_maintenance [of scenario_app scenario_cmd] by blast
  ultimately show ?thesis
    by (simp add: scenario_app_def scenario_repository_def)
qed

end
